theory Spec2Isabelle
  imports Complex_Main "HOL-Library.Sublist"
begin

section \<open>Shared vocabulary\<close>

text \<open>
  The server entry point \<^verbatim>\<open>server/index.ts\<close> and the monitoring page talk to
  collaborators that live outside these files (database module, migration runner,
  storage classes, external logger, HTTP endpoints). An awaited call to one of them either
  returns a value or throws; the message of the thrown error is kept because the code
  prints it.
\<close>

datatype 'a outcome = Returns 'a | Throws string

text \<open>
  Everything observable that the code does besides computing values is recorded as a list
  of events, oldest first. The pictographs that prefix the console messages in the source
  are not ASCII and are left out of the message texts.
\<close>

datatype event =
    ConsoleLog string
  | ConsoleWarn string
  | ConsoleError string
  | AppLog string
  | Invoke string
  | ExternalLog string string
  | Listen nat string

section \<open>Objects, the shared storage handle and method rebinding\<close>

text \<open>
  \<^verbatim>\<open>storage\<close> is one imported object that every consumer holds by reference. Objects
  live in a store indexed by address; a property read looks at the object's own properties
  first and then at what it inherits from its class prototype. A value is only
  distinguished as far as \<^verbatim>\<open>typeof v === 'function'\<close> and \<^verbatim>\<open>v.bind(obj)\<close>
  need: a function is named by the method body it runs.
\<close>

type_synonym addr = nat

datatype jsvalue =
    Undefined
  | Data
  | Function string
  | BoundFunction string addr

record object =
  own :: "string \<rightharpoonup> jsvalue"
  inherited :: "string \<rightharpoonup> jsvalue"

type_synonym heap = "object list"

definition lookup :: "object \<Rightarrow> string \<Rightarrow> jsvalue" where
  "lookup ob name =
     (case own ob name of
        Some v \<Rightarrow> v
      | None \<Rightarrow> (case inherited ob name of Some v \<Rightarrow> v | None \<Rightarrow> Undefined))"

definition getProp :: "heap \<Rightarrow> addr \<Rightarrow> string \<Rightarrow> jsvalue" where
  "getProp h a name = (if a < length h then lookup (h ! a) name else Undefined)"

definition setProp :: "heap \<Rightarrow> addr \<Rightarrow> string \<Rightarrow> jsvalue \<Rightarrow> heap" where
  "setProp h a name v = h[a := (h ! a)\<lparr>own := (own (h ! a))(name \<mapsto> v)\<rparr>]"

fun isFunction :: "jsvalue \<Rightarrow> bool" where
  "isFunction (Function f) = True"
| "isFunction (BoundFunction f a) = True"
| "isFunction v = False"

text \<open>\<^verbatim>\<open>f.bind(obj)\<close>: a function that is already bound keeps its receiver.\<close>

fun bind :: "jsvalue \<Rightarrow> addr \<Rightarrow> jsvalue" where
  "bind (Function f) a = BoundFunction f a"
| "bind v a = v"

text \<open>
  \<^verbatim>\<open>obj.name(...)\<close>: which method body runs, and with which receiver. A plain function
  found on the object runs with the object itself as receiver, a bound one with the
  receiver it was bound to.
\<close>

definition invoke :: "heap \<Rightarrow> addr \<Rightarrow> string \<Rightarrow> (string \<times> addr) option" where
  "invoke h a name =
     (case getProp h a name of
        Function f \<Rightarrow> Some (f, a)
      | BoundFunction f b \<Rightarrow> Some (f, b)
      | _ \<Rightarrow> None)"

text \<open>
  The loop of lines 124--128:
  \<^verbatim>\<open>Object.getOwnPropertyNames(DatabaseStorage.prototype).forEach(name => {
    if (name !== 'constructor' && typeof databaseStorage[name] === 'function') {
      storage[name] = databaseStorage[name].bind(databaseStorage);
    }
  });\<close>
\<close>

fun rebind :: "addr \<Rightarrow> addr \<Rightarrow> string list \<Rightarrow> heap \<Rightarrow> heap" where
  "rebind storage databaseStorage [] h = h"
| "rebind storage databaseStorage (name # names) h =
     rebind storage databaseStorage names
       (if name \<noteq> ''constructor'' \<and> isFunction (getProp h databaseStorage name)
        then setProp h storage name (bind (getProp h databaseStorage name) databaseStorage)
        else h)"

section \<open>Bootstrap: connection probe, backend selection, migration, fallback\<close>

text \<open>
  What \<^verbatim>\<open>freshDb.execute\<close> gives back for the two probe queries. The result of
  \<^verbatim>\<open>SELECT 1\<close> is read as \<^verbatim>\<open>testResult && testResult.rows && testResult.rows.length > 0\<close>,
  so a missing result, a missing \<^verbatim>\<open>rows\<close> and the number of rows are told apart.
\<close>

datatype query_result = NoResult | NoRows | Rows nat

record db_handle =
  connectionTest :: "query_result outcome"
  vmMonitoringCount :: "unit outcome"

text \<open>
  The environment of one bootstrap run: the two reads of the \<^verbatim>\<open>./db\<close> module's
  connection flag (before and after the two-second delay), the database handle (absent
  when falsy), the \<^verbatim>\<open>DATABASE_URL\<close> variable (absent when unset), the outcomes of the
  migration runner, of \<^verbatim>\<open>initializeDatabase\<close> and of the \<^verbatim>\<open>DatabaseStorage\<close>
  constructor (the own fields it sets on the new instance), the own properties of
  \<^verbatim>\<open>DatabaseStorage.prototype\<close> in enumeration order, and the address of the shared
  \<^verbatim>\<open>storage\<close> object.
\<close>

record env =
  databaseConnected :: bool
  freshConnectionStatus :: bool
  freshDb :: "db_handle option"
  DATABASE_URL :: "string option"
  runMigrations :: "unit outcome"
  initializeDatabase :: "unit outcome"
  newDatabaseStorage :: "(string \<rightharpoonup> jsvalue) outcome"
  prototype :: "(string \<times> jsvalue) list"
  storage :: addr

text \<open>JavaScript truthiness of an environment variable: unset and empty are falsy.\<close>

fun truthyStr :: "string option \<Rightarrow> bool" where
  "truthyStr None = False"
| "truthyStr (Some s) = (s \<noteq> [])"

text \<open>
  \<^verbatim>\<open>actualConnectionVerified\<close> holds \<^verbatim>\<open>false\<close>, or whatever the \<^verbatim>\<open>&&\<close> chain
  produced: \<^verbatim>\<open>undefined\<close> when the result or its rows are missing, else the comparison.
\<close>

datatype verified = VUndefined | VBool bool

fun truthy :: "verified \<Rightarrow> bool" where
  "truthy VUndefined = False"
| "truthy (VBool b) = b"

fun rowsVerified :: "query_result \<Rightarrow> verified" where
  "rowsVerified NoResult = VUndefined"
| "rowsVerified NoRows = VUndefined"
| "rowsVerified (Rows n) = VBool (n > 0)"

fun showVerified :: "verified \<Rightarrow> string" where
  "showVerified VUndefined = ''undefined''"
| "showVerified (VBool b) = (if b then ''true'' else ''false'')"

definition yesNo :: "bool \<Rightarrow> string" where
  "yesNo b = (if b then ''YES'' else ''NO'')"

text \<open>Lines 78--99: the direct probe and, only after it succeeded, the table probe.\<close>

definition directProbe :: "env \<Rightarrow> verified \<times> event list" where
  "directProbe e =
     (case freshDb e of
        None \<Rightarrow> (VBool False, [])
      | Some db \<Rightarrow>
          if \<not> truthyStr (DATABASE_URL e) then (VBool False, [])
          else
            (case connectionTest db of
               Throws m \<Rightarrow>
                 (VBool False,
                  [Invoke ''SELECT 1 as connection_test'',
                   ConsoleError (''Direct connection test failed: '' @ m)])
             | Returns r \<Rightarrow>
                 (rowsVerified r,
                  [Invoke ''SELECT 1 as connection_test'',
                   ConsoleLog (''Direct connection test result: '' @
                     (if truthy (rowsVerified r) then ''SUCCESS'' else ''FAILED''))] @
                  (if truthy (rowsVerified r) then
                     Invoke ''SELECT COUNT(*) FROM vm_monitoring'' #
                     (case vmMonitoringCount db of
                        Returns u \<Rightarrow> [ConsoleLog ''VM monitoring table accessible: SUCCESS'']
                      | Throws m \<Rightarrow>
                          [ConsoleLog ''VM monitoring table check: TABLE MISSING OR INACCESSIBLE''])
                   else []))))"

text \<open>
  Line 102, the condition of the \<^verbatim>\<open>if\<close>:
  \<^verbatim>\<open>(freshConnectionStatus || databaseConnected || actualConnectionVerified)
     && process.env.DATABASE_URL && freshDb\<close>
\<close>

definition selectDurable ::
  "bool \<Rightarrow> bool \<Rightarrow> verified \<Rightarrow> string option \<Rightarrow> db_handle option \<Rightarrow> bool" where
  "selectDurable fresh declared actual url db =
     (if fresh \<or> declared \<or> truthy actual
      then (if truthyStr url then db \<noteq> None else False)
      else False)"

record boot =
  heap :: heap
  usingDatabase :: bool
  events :: "event list"

definition fallbackEvents :: "string \<Rightarrow> string \<Rightarrow> event list" where
  "fallbackEvents what m =
     [ConsoleError (what @ m), ConsoleWarn ''Falling back to in-memory storage'']"

text \<open>
  Lines 111--144: the two nested \<^verbatim>\<open>try\<close> blocks. The new instance is allocated at
  the next free address; its inherited properties are those of the class prototype.
\<close>

definition initDurable :: "env \<Rightarrow> heap \<Rightarrow> boot" where
  "initDurable e h =
     (let started =
            [ConsoleLog ''Running comprehensive database verification and auto-repair...'',
             Invoke ''runMigrations'']
      in case runMigrations e of
           Throws m \<Rightarrow>
             \<lparr>heap = h, usingDatabase = False,
              events = started @ fallbackEvents ''Database migrations failed: '' m\<rparr>
         | Returns u \<Rightarrow>
             (case initializeDatabase e of
                Throws m \<Rightarrow>
                  \<lparr>heap = h, usingDatabase = False,
                   events = started @ [Invoke ''initializeDatabase''] @
                     fallbackEvents ''Failed to initialize database storage: '' m\<rparr>
              | Returns u \<Rightarrow>
                  (let initialised = started @
                         [Invoke ''initializeDatabase'',
                          ConsoleLog ''Initializing PostgreSQL storage...'',
                          Invoke ''new DatabaseStorage'']
                   in case newDatabaseStorage e of
                        Throws m \<Rightarrow>
                          \<lparr>heap = h, usingDatabase = False,
                           events = initialised @
                             fallbackEvents ''Failed to initialize database storage: '' m\<rparr>
                      | Returns ownFields \<Rightarrow>
                          \<lparr>heap =
                             rebind (storage e) (length h) (map fst (prototype e))
                               (h @ [\<lparr>own = ownFields, inherited = map_of (prototype e)\<rparr>]),
                           usingDatabase = True,
                           events = initialised @
                             [ConsoleLog ''PostgreSQL storage initialized successfully!'',
                              ConsoleLog ''Data will persist between restarts'']\<rparr>)))"

text \<open>Lines 103--110: what is printed on entering the durable branch.\<close>

definition selectedBanner :: "env \<Rightarrow> verified \<Rightarrow> event list" where
  "selectedBanner e actualConnectionVerified =
     [ConsoleLog
        ''PostgreSQL connection verified - proceeding with comprehensive database verification...'',
      ConsoleLog (''Database URL configured: '' @ yesNo (truthyStr (DATABASE_URL e))),
      ConsoleLog (''Database instance available: '' @ yesNo (freshDb e \<noteq> None)),
      ConsoleLog (''Connection status flags: { freshConnectionStatus: '' @
        showVerified (VBool (freshConnectionStatus e)) @ '', databaseConnected: '' @
        showVerified (VBool (databaseConnected e)) @ '', actualConnectionVerified: '' @
        showVerified actualConnectionVerified @ '' }'')]"

text \<open>Lines 63--150: the body of the bootstrap up to the scheduling of the admin check.\<close>

definition bootstrap :: "env \<Rightarrow> heap \<Rightarrow> boot" where
  "bootstrap e h =
     (let (actualConnectionVerified, probed) = directProbe e;
          before = ConsoleLog ''Starting application initialization...'' # probed
      in if selectDurable (freshConnectionStatus e) (databaseConnected e)
              actualConnectionVerified (DATABASE_URL e) (freshDb e)
         then
           (let r = initDurable e h
            in r\<lparr>events := before @ selectedBanner e actualConnectionVerified @ events r\<rparr>)
         else
           \<lparr>heap = h, usingDatabase = False,
            events = before @
              [ConsoleLog ''PostgreSQL not available - using in-memory storage'',
               ConsoleLog ''Data will NOT persist between server restarts'',
               ConsoleLog ''Set up PostgreSQL database for persistent storage'']\<rparr>)"

text \<open>The condition of line 102 with the probe's own result filled in.\<close>

definition selected :: "env \<Rightarrow> bool" where
  "selected e =
     selectDurable (freshConnectionStatus e) (databaseConnected e)
       (fst (directProbe e)) (DATABASE_URL e) (freshDb e)"

text \<open>The two console lines that report the outcome of the table probe (lines 90, 92).\<close>

definition isTableProbeLog :: "event \<Rightarrow> bool" where
  "isTableProbeLog ev =
     (ev = ConsoleLog ''VM monitoring table accessible: SUCCESS'' \<or>
      ev = ConsoleLog ''VM monitoring table check: TABLE MISSING OR INACCESSIBLE'')"

text \<open>
  The table probe is reached and fails: a handle and a non-empty \<^verbatim>\<open>DATABASE_URL\<close>
  exist, the direct probe returned at least one row, and the query on
  \<^verbatim>\<open>vm_monitoring\<close> throws.
\<close>

definition tableProbeFailed :: "env \<Rightarrow> bool" where
  "tableProbeFailed e =
     (case freshDb e of
        None \<Rightarrow> False
      | Some db \<Rightarrow>
          truthyStr (DATABASE_URL e) \<and>
          (case connectionTest db of
             Throws m \<Rightarrow> False
           | Returns r \<Rightarrow>
               truthy (rowsVerified r) \<and>
               (case vmMonitoringCount db of Throws m \<Rightarrow> True | Returns u \<Rightarrow> False)))"

text \<open>
  A concrete run used to exercise the theorems below: the handle is the only object in the
  store, an instance whose three methods come from the in-memory class; the durable class
  offers the same three names; the direct probe returns one row and the table probe fails.
\<close>

definition memStorageObject :: object where
  "memStorageObject =
     \<lparr>own = Map.empty,
      inherited = map_of
        [(''constructor'', Function ''MemStorage''),
         (''getUserByUsername'', Function ''MemStorage.getUserByUsername''),
         (''createUser'', Function ''MemStorage.createUser'')]\<rparr>"

definition durablePrototype :: "(string \<times> jsvalue) list" where
  "durablePrototype =
     [(''constructor'', Function ''DatabaseStorage''),
      (''getUserByUsername'', Function ''DatabaseStorage.getUserByUsername''),
      (''createUser'', Function ''DatabaseStorage.createUser'')]"

definition exampleEnv :: env where
  "exampleEnv =
     \<lparr>databaseConnected = False,
      freshConnectionStatus = False,
      freshDb = Some \<lparr>connectionTest = Returns (Rows 1),
                      vmMonitoringCount = Throws ''relation vm_monitoring does not exist''\<rparr>,
      DATABASE_URL = Some ''postgres://localhost/app'',
      runMigrations = Returns (),
      initializeDatabase = Returns (),
      newDatabaseStorage = Returns Map.empty,
      prototype = durablePrototype,
      storage = 0\<rparr>"



definition failingMigrationEnv :: env where
  "failingMigrationEnv = exampleEnv\<lparr>runMigrations := Throws ''connection refused''\<rparr>"

section \<open>The default administrator (lines 152--191)\<close>

record permission =
  view :: bool
  edit :: bool
  add :: bool

record user =
  username :: string
  password :: string
  firstName :: string
  lastName :: string
  email :: string
  isAdmin :: bool
  department :: string
  permissions :: "(string \<times> permission) list"










section \<open>Request logging and server start\<close>

text \<open>Decimal rendering of the numbers interpolated into the log line.\<close>

fun showNat :: "nat \<Rightarrow> string" where
  "showNat n =
     (if n < 10 then [char_of (48 + n)]
      else showNat (n div 10) @ [char_of (48 + n mod 10)])"

definition showInt :: "int \<Rightarrow> string" where
  "showInt i = (if i < 0 then CHR ''-'' # showNat (nat (- i)) else showNat (nat i))"

text \<open>
  What the \<^verbatim>\<open>finish\<close> handler of the middleware (lines 27--58) knows about a request.
  \<^verbatim>\<open>capturedJsonResponse\<close> is present when a truthy body went through
  \<^verbatim>\<open>res.json\<close>, and is kept in the form \<^verbatim>\<open>JSON.stringify\<close> gives it.
\<close>

record finished_request =
  reqMethod :: string
  path :: string
  statusCode :: nat
  duration :: int
  capturedJsonResponse :: "string option"

text \<open>The external logger: each entry point either returns or throws.\<close>

record logger =
  logApiRequest :: "finished_request \<Rightarrow> unit outcome"
  logSystem :: "string \<Rightarrow> unit outcome"
  logLifecycle :: "string \<Rightarrow> unit outcome"
  logCritical :: "string \<Rightarrow> unit outcome"

text \<open>
  Lines 30--37. Characters stand for the code units \<^verbatim>\<open>length\<close> and \<^verbatim>\<open>slice\<close>
  count; the horizontal ellipsis appended after truncation is written as its three UTF-8
  bytes.
\<close>

definition ellipsis :: string where
  "ellipsis = [char_of (226::nat), char_of (128::nat), char_of (166::nat)]"

definition logLine :: "finished_request \<Rightarrow> string" where
  "logLine r =
     (let line = reqMethod r @ '' '' @ path r @ '' '' @ showNat (statusCode r) @ '' in '' @
                 showInt (duration r) @ ''ms'';
          line' = (case capturedJsonResponse r of
                     Some json \<Rightarrow> line @ '' :: '' @ json
                   | None \<Rightarrow> line)
      in if length line' > 80 then take 79 line' @ ellipsis else line')"

definition onFinish :: "logger \<Rightarrow> finished_request \<Rightarrow> event list" where
  "onFinish lg r =
     (if prefix ''/api'' (path r) then
        AppLog (logLine r) #
        (case logApiRequest lg r of
           Returns u \<Rightarrow> [ExternalLog ''api-request'' (path r)]
         | Throws m \<Rightarrow> [ConsoleError (''Failed to log API request externally: '' @ m)])
      else [])"

text \<open>
  What \<^verbatim>\<open>startServer\<close> (lines 194--221) depends on: route registration, the
  \<^verbatim>\<open>NODE_ENV\<close> variable, the development middleware or the static file server, and
  \<^verbatim>\<open>DATABASE_URL\<close> for the banner.
\<close>

record server_env =
  registerRoutes :: "unit outcome"
  NODE_ENV :: "string option"
  setupVite :: "unit outcome"
  serveStatic :: "unit outcome"
  databaseUrl :: "string option"

definition PORT :: nat where
  "PORT = 5000"

definition databaseType :: "string option \<Rightarrow> string" where
  "databaseType url = (if truthyStr url then ''PostgreSQL'' else ''Memory'')"

definition startServer :: "server_env \<Rightarrow> logger \<Rightarrow> unit outcome \<times> event list" where
  "startServer e lg =
     (case registerRoutes e of
        Throws m \<Rightarrow> (Throws m, [Invoke ''registerRoutes''])
      | Returns u \<Rightarrow>
          (let development = (NODE_ENV e \<noteq> Some ''production'');
               prepared = [Invoke ''registerRoutes'',
                           Invoke (if development then ''setupVite'' else ''serveStatic'')]
           in case (if development then setupVite e else serveStatic e) of
                Throws m \<Rightarrow> (Throws m, prepared)
              | Returns u \<Rightarrow>
                  (case logSystem lg ''server_startup'' of
                     Throws m \<Rightarrow> (Throws m, prepared)
                   | Returns u \<Rightarrow>
                       (Returns (),
                        prepared @
                        [ExternalLog ''system'' ''server_startup'',
                         ConsoleLog (''Server running on http://0.0.0.0:'' @ showNat PORT),
                         ConsoleLog (''Database: '' @ databaseType (databaseUrl e)),
                         ConsoleLog ''Logs directory: logs/'',
                         Listen PORT ''0.0.0.0'']))))"

text \<open>
  Lines 242--294, \<^verbatim>\<open>startServer().then(...).catch(...)\<close>: the events of the whole
  launch, whether the heartbeat timer and the signal handlers were installed, and the
  error that escapes when the handler of the \<^verbatim>\<open>catch\<close> itself throws.
\<close>

record launch =
  launched :: "event list"
  heartbeat :: bool
  escaped :: "string option"

definition startFailed :: "logger \<Rightarrow> event list \<Rightarrow> string \<Rightarrow> launch" where
  "startFailed lg out m =
     (let out' = out @ [ConsoleError (''Failed to start server: '' @ m)]
      in case logCritical lg ''Server startup failed'' of
           Returns u \<Rightarrow>
             \<lparr>launched = out' @ [ExternalLog ''critical'' ''Server startup failed''],
              heartbeat = False, escaped = None\<rparr>
         | Throws m' \<Rightarrow> \<lparr>launched = out', heartbeat = False, escaped = Some m'\<rparr>)"

definition launchServer :: "server_env \<Rightarrow> logger \<Rightarrow> string \<Rightarrow> launch" where
  "launchServer e lg localIP =
     (case startServer e lg of
        (Throws m, out) \<Rightarrow> startFailed lg out m
      | (Returns u, out) \<Rightarrow>
          (let out' = out @
                 [AppLog (''serving on port '' @ showNat PORT),
                  ConsoleLog (''SRPH-MIS is running at: http://0.0.0.0:'' @ showNat PORT),
                  ConsoleLog ''Access your app through Replit's webview'',
                  ConsoleLog (''Network access: http://'' @ localIP @ '':'' @ showNat PORT),
                  ConsoleLog ''External logs are being written to: logs/'']
           in case logLifecycle lg ''startup'' of
                Throws m \<Rightarrow> startFailed lg out' m
              | Returns u \<Rightarrow>
                  \<lparr>launched = out' @ [ExternalLog ''lifecycle'' ''startup''],
                   heartbeat = True, escaped = None\<rparr>))"

text \<open>A launch environment in which every step before the logging call succeeds.\<close>

definition developmentServer :: server_env where
  "developmentServer =
     \<lparr>registerRoutes = Returns (), NODE_ENV = None, setupVite = Returns (),
      serveStatic = Returns (), databaseUrl = None\<rparr>"

definition workingLogger :: logger where
  "workingLogger =
     \<lparr>logApiRequest = (\<lambda>r. Returns ()), logSystem = (\<lambda>ev. Returns ()),
      logLifecycle = (\<lambda>ev. Returns ()), logCritical = (\<lambda>ev. Returns ())\<rparr>"

definition brokenLogger :: logger where
  "brokenLogger =
     \<lparr>logApiRequest = (\<lambda>r. Throws ''EACCES: logs/''), logSystem = (\<lambda>ev. Throws ''EACCES: logs/''),
      logLifecycle = (\<lambda>ev. Throws ''EACCES: logs/''),
      logCritical = (\<lambda>ev. Throws ''EACCES: logs/'')\<rparr>"

section \<open>The monitoring page\<close>

text \<open>
  A JavaScript number as far as the page distinguishes it: not-a-number, an infinity with
  its sign, or a finite value, taken as the real number it denotes (rounding of the
  binary representation is not modelled). Division follows JavaScript, where dividing by
  zero does not fail but yields \<^verbatim>\<open>NaN\<close> or an infinity.
\<close>

datatype jsnumber = NaN | Infinity bool | Num real

definition jsDivide :: "real \<Rightarrow> real \<Rightarrow> jsnumber" where
  "jsDivide a b =
     (if b = 0 then (if a = 0 then NaN else Infinity (a > 0)) else Num (a / b))"

fun jsTimes :: "jsnumber \<Rightarrow> real \<Rightarrow> jsnumber" where
  "jsTimes NaN k = NaN"
| "jsTimes (Infinity s) k = (if k = 0 then NaN else Infinity (s = (k > 0)))"
| "jsTimes (Num x) k = Num (x * k)"

text \<open>\<^verbatim>\<open>x || d\<close> on a finite number: zero is falsy.\<close>

definition orNumber :: "real \<Rightarrow> real \<Rightarrow> real" where
  "orNumber x d = (if x = 0 then d else x)"

text \<open>\<^verbatim>\<open>s || d\<close> on a possibly missing string: missing and empty are falsy.\<close>

fun orString :: "string option \<Rightarrow> string \<Rightarrow> string" where
  "orString None d = d"
| "orString (Some s) d = (if s = [] then d else s)"

subsection \<open>The configuration form\<close>

record zabbix_config =
  url :: string
  username :: string
  password :: string
  apiVersion :: string
  autoRefresh :: bool
  refreshInterval :: jsnumber

datatype issue =
    InvalidUrl
  | UsernameRequired
  | PasswordRequired
  | NotANumber
  | TooSmall
  | TooBig

text \<open>
  \<^verbatim>\<open>zabbixConfigSchema\<close>, lines 39--46, as the list of issues it reports; the input is
  accepted when the list is empty. The syntax check behind \<^verbatim>\<open>z.string().url()\<close>
  belongs to the validation library and is a parameter. \<^verbatim>\<open>min\<close> and \<^verbatim>\<open>max\<close> are
  inclusive bounds; \<^verbatim>\<open>z.number()\<close> rejects \<^verbatim>\<open>NaN\<close>.
\<close>

definition zabbixConfigSchema :: "(string \<Rightarrow> bool) \<Rightarrow> zabbix_config \<Rightarrow> issue list" where
  "zabbixConfigSchema isUrl c =
     (if isUrl (url c) then [] else [InvalidUrl]) @
     (if length (username c) \<ge> 1 then [] else [UsernameRequired]) @
     (if length (password c) \<ge> 1 then [] else [PasswordRequired]) @
     (case refreshInterval c of
        NaN \<Rightarrow> [NotANumber]
      | Infinity positive \<Rightarrow> (if positive then [TooBig] else [TooSmall])
      | Num x \<Rightarrow> (if x < 30 then [TooSmall] else []) @ (if x > 600 then [TooBig] else []))"

text \<open>
  An HTTP exchange as the page sees it: \<^verbatim>\<open>fetch\<close> rejects, or a response arrives with
  its \<^verbatim>\<open>ok\<close> flag, status, status text and the outcome of reading its body as JSON.
  A body is \<^verbatim>\<open>null\<close> (or another non-object), or an object with the optional
  \<^verbatim>\<open>message\<close> and \<^verbatim>\<open>error\<close> fields and the rest of its content.
\<close>

datatype 'd json = JsonNull | JsonObject "string option" "string option" 'd

datatype 'd http = NetworkError string | Response bool nat string "'d json outcome"

fun responseOk :: "'d http \<Rightarrow> bool" where
  "responseOk (NetworkError m) = False"
| "responseOk (Response ok status statusText body) = ok"

datatype request = PostTestConnection zabbix_config | PostMetrics zabbix_config

text \<open>
  The state of the page. Besides the items kept in the browser's local storage it records
  what \<^verbatim>\<open>localStorage.setItem\<close> does in this browser: it returns, or it throws (the
  quota is exceeded, or storage is disabled).
\<close>

record page =
  localStorage :: "string \<rightharpoonup> zabbix_config"
  setItem :: "unit outcome"
  isConfigured :: bool
  showSettings :: bool
  requests :: "request list"
  toasts :: "(string \<times> string) list"
  formErrors :: "issue list"
  invalidated :: nat

definition configKey :: string where
  "configKey = ''zabbix-server-config''"

text \<open>
  The \<^verbatim>\<open>mutationFn\<close> of \<^verbatim>\<open>saveConfigMutation\<close>, lines 158--175, after the request
  has been sent: what it returns or throws, and the local storage it leaves. The write of
  line 173 is not guarded: when \<^verbatim>\<open>setItem\<close> throws, nothing is stored and the function
  throws that error.
\<close>

definition saveConfigMutationFn ::
  "'d http \<Rightarrow> unit outcome \<Rightarrow> zabbix_config \<Rightarrow> (string \<rightharpoonup> zabbix_config) \<Rightarrow>
   zabbix_config outcome \<times> (string \<rightharpoonup> zabbix_config)" where
  "saveConfigMutationFn testResponse written config store =
     (case testResponse of
        NetworkError m \<Rightarrow> (Throws m, store)
      | Response ok status statusText body \<Rightarrow>
          if \<not> ok then
            (case body of
               Throws m \<Rightarrow> (Throws m, store)
             | Returns JsonNull \<Rightarrow> (Throws ''Cannot read properties of null'', store)
             | Returns (JsonObject message err rest) \<Rightarrow>
                 (Throws (orString message ''Connection test failed''), store))
          else
            (case written of
               Throws m \<Rightarrow> (Throws m, store)
             | Returns u \<Rightarrow> (Returns config, store(configKey \<mapsto> config))))"

text \<open>\<^verbatim>\<open>saveConfigMutation.mutate(config)\<close> with its two callbacks, lines 157--193.\<close>

definition saveConfigMutation :: "'d http \<Rightarrow> zabbix_config \<Rightarrow> page \<Rightarrow> page" where
  "saveConfigMutation testResponse config p =
     (let sent = p\<lparr>requests := requests p @ [PostTestConnection config]\<rparr>
      in case saveConfigMutationFn testResponse (setItem p) config (localStorage p) of
           (Returns saved, store) \<Rightarrow>
             sent\<lparr>localStorage := store,
                  isConfigured := True,
                  showSettings := False,
                  toasts := toasts p @
                    [(''Configuration Saved'',
                      ''Zabbix configuration saved and connection verified successfully'')],
                  invalidated := Suc (invalidated p)\<rparr>
         | (Throws m, store) \<Rightarrow>
             sent\<lparr>localStorage := store,
                  toasts := toasts p @ [(''Configuration Failed'', m)]\<rparr>)"

text \<open>
  \<^verbatim>\<open>form.handleSubmit(handleSubmit)\<close>, line 326: the resolver runs the schema and
  \<^verbatim>\<open>handleSubmit\<close> is called only when it reports no issue.
\<close>

definition submitForm ::
  "(string \<Rightarrow> bool) \<Rightarrow> 'd http \<Rightarrow> zabbix_config \<Rightarrow> page \<Rightarrow> page" where
  "submitForm isUrl testResponse values p =
     (case zabbixConfigSchema isUrl values of
        [] \<Rightarrow> saveConfigMutation testResponse values (p\<lparr>formErrors := []\<rparr>)
      | issues \<Rightarrow> p\<lparr>formErrors := issues\<rparr>)"

text \<open>
  The \<^verbatim>\<open>Test Connection\<close> button, line 404:
  \<^verbatim>\<open>onClick={() => testConnectionMutation.mutate(form.getValues())}\<close>, with the mutation
  of lines 125--154. The body of a successful answer carries the optional host count.
\<close>

definition hostsFound :: "nat option \<Rightarrow> string" where
  "hostsFound hostCount =
     (case hostCount of
        None \<Rightarrow> []
      | Some n \<Rightarrow> if n = 0 then [] else ''Found '' @ showNat n @ '' hosts.'')"

definition testConnectionMutation :: "nat option http \<Rightarrow> zabbix_config \<Rightarrow> page \<Rightarrow> page" where
  "testConnectionMutation response config p =
     (let sent = p\<lparr>requests := requests p @ [PostTestConnection config]\<rparr>;
          failed = (\<lambda>m. sent\<lparr>toasts := toasts p @ [(''Connection Failed'', m)]\<rparr>)
      in case response of
           NetworkError m \<Rightarrow> failed m
         | Response ok status statusText body \<Rightarrow>
             (case body of
                Throws m \<Rightarrow> failed m
              | Returns JsonNull \<Rightarrow> failed ''Cannot read properties of null''
              | Returns (JsonObject message err hostCount) \<Rightarrow>
                  if \<not> ok then failed (orString message ''Connection test failed'')
                  else sent\<lparr>toasts := toasts p @
                         [(''Connection Successful'',
                           ''Connected to Zabbix server successfully. '' @
                           hostsFound hostCount)]\<rparr>))"

definition clickTestConnection :: "nat option http \<Rightarrow> zabbix_config \<Rightarrow> page \<Rightarrow> page" where
  "clickTestConnection response values p = testConnectionMutation response values p"

subsection \<open>The metrics query\<close>

record ('h, 'p) raw_metrics =
  rawHosts :: "'h list option"
  rawProblems :: "'p list option"
  rawTotalHosts :: "real option"
  rawAvailableHosts :: "real option"
  rawUnavailableHosts :: "real option"
  rawAvgCpuUsage :: "real option"
  rawAvgMemoryUsage :: "real option"

record ('h, 'p) server_metrics =
  hosts :: "'h list"
  problems :: "'p list"
  totalHosts :: real
  availableHosts :: real
  unavailableHosts :: real
  avgCpuUsage :: real
  avgMemoryUsage :: real

fun orZero :: "real option \<Rightarrow> real" where
  "orZero None = 0"
| "orZero (Some x) = x"

fun orEmpty :: "'a list option \<Rightarrow> 'a list" where
  "orEmpty None = []"
| "orEmpty (Some xs) = xs"

text \<open>
  \<^verbatim>\<open>queryFn\<close>, lines 198--235: the requests it issues and what it returns or throws.
  A stored configuration is read back as the record that was saved; nothing stored reads
  as the empty object.
\<close>

definition queryFn ::
  "(string \<rightharpoonup> zabbix_config) \<Rightarrow> ('h, 'p) raw_metrics http \<Rightarrow>
   ('h, 'p) server_metrics outcome \<times> request list" where
  "queryFn store response =
     (let incomplete = ''Zabbix configuration is incomplete. Please check settings.''
      in case store configKey of
           None \<Rightarrow> (Throws incomplete, [])
         | Some config \<Rightarrow>
             if url config = [] \<or> username config = [] \<or> password config = []
             then (Throws incomplete, [])
             else
               (case response of
                  NetworkError m \<Rightarrow> Throws m
                | Response ok status statusText body \<Rightarrow>
                    if \<not> ok then
                      (let fallback = ''HTTP '' @ showNat status @ '': '' @ statusText
                       in case body of
                            Throws m \<Rightarrow> Throws fallback
                          | Returns JsonNull \<Rightarrow> Throws ''Cannot read properties of null''
                          | Returns (JsonObject message err rest) \<Rightarrow>
                              Throws (orString message (orString err fallback)))
                    else
                      (case body of
                         Throws m \<Rightarrow> Throws m
                       | Returns JsonNull \<Rightarrow> Throws ''Invalid response format from server''
                       | Returns (JsonObject message err data) \<Rightarrow>
                           Returns
                             \<lparr>hosts = orEmpty (rawHosts data),
                              problems = orEmpty (rawProblems data),
                              totalHosts = orZero (rawTotalHosts data),
                              availableHosts = orZero (rawAvailableHosts data),
                              unavailableHosts = orZero (rawUnavailableHosts data),
                              avgCpuUsage = orZero (rawAvgCpuUsage data),
                              avgMemoryUsage = orZero (rawAvgMemoryUsage data)\<rparr>),
                [PostMetrics config]))"

text \<open>\<^verbatim>\<open>String.prototype.includes\<close>: the needle occurs somewhere in the text.\<close>

fun includes_str :: "string \<Rightarrow> string \<Rightarrow> bool" where
  "includes_str [] needle = (needle = [])"
| "includes_str (c # cs) needle = (prefix needle (c # cs) \<or> includes_str cs needle)"

text \<open>The \<^verbatim>\<open>retry\<close> and \<^verbatim>\<open>retryDelay\<close> options, lines 238--246.\<close>

definition retry :: "nat \<Rightarrow> string \<Rightarrow> bool" where
  "retry failureCount message =
     (if includes_str message ''Authentication'' \<or> includes_str message ''401'' then False
      else failureCount < 3)"

definition retryDelay :: "nat \<Rightarrow> nat" where
  "retryDelay attemptIndex = min (1000 * 2 ^ attemptIndex) 30000"

text \<open>
  The query library drives the two options: when a run of the query function fails, it
  computes the delay and asks \<^verbatim>\<open>retry\<close> with the number of failures so far (zero
  after the first failure); on \<^verbatim>\<open>true\<close> it counts the failure, waits and runs the
  function again, otherwise the error surfaces. \<open>attempt n\<close> is the outcome of the run
  that follows \<open>n\<close> failures; the delays waited are collected.
\<close>

function fetchWithRetry ::
  "(nat \<Rightarrow> 'a outcome) \<Rightarrow> nat \<Rightarrow> nat list \<Rightarrow> 'a outcome \<times> nat list" where
  "fetchWithRetry attempt failureCount delays =
     (case attempt failureCount of
        Returns v \<Rightarrow> (Returns v, delays)
      | Throws m \<Rightarrow>
          if retry failureCount m
          then fetchWithRetry attempt (Suc failureCount) (delays @ [retryDelay failureCount])
          else (Throws m, delays))"
  by pat_completeness auto
termination
  by (relation "measure (\<lambda>(attempt, failureCount, delays). 3 - failureCount)")
     (auto simp: retry_def split: if_splits)

subsection \<open>Availability\<close>

text \<open>
  The value given to the progress bar, line 716:
  \<^verbatim>\<open>metrics?.totalHosts ? (metrics.availableHosts / metrics.totalHosts) * 100 : 0\<close>.
\<close>

definition availabilityProgress :: "('h, 'p) server_metrics option \<Rightarrow> jsnumber" where
  "availabilityProgress metrics =
     (case metrics of
        None \<Rightarrow> Num 0
      | Some m \<Rightarrow>
          if totalHosts m \<noteq> 0 then jsTimes (jsDivide (availableHosts m) (totalHosts m)) 100
          else Num 0)"

text \<open>
  The number formatted in the summary, line 948, before \<^verbatim>\<open>toFixed(1)\<close> renders it:
  \<^verbatim>\<open>(metrics?.totalHosts || 0) === 0 ? 0
     : (metrics?.availableHosts || 0) / (metrics?.totalHosts || 1) * 100\<close>.
\<close>

definition availabilitySummary :: "('h, 'p) server_metrics option \<Rightarrow> jsnumber" where
  "availabilitySummary metrics =
     (let total = (case metrics of None \<Rightarrow> None | Some m \<Rightarrow> Some (totalHosts m));
          available = (case metrics of None \<Rightarrow> None | Some m \<Rightarrow> Some (availableHosts m))
      in if orNumber (orZero total) 0 = 0 then Num 0
         else jsTimes (jsDivide (orNumber (orZero available) 0) (orNumber (orZero total) 1)) 100)"

text \<open>
  A form filled with nothing but an interval of five seconds, a form filled properly, a
  fresh page in a browser that accepts writes, and an answer of the connectivity test that
  reports success.
\<close>

definition invalidValues :: zabbix_config where
  "invalidValues =
     \<lparr>url = [], username = [], password = [], apiVersion = ''2.4'', autoRefresh = True,
      refreshInterval = Num 5\<rparr>"

definition freshPage :: page where
  "freshPage =
     \<lparr>localStorage = Map.empty, setItem = Returns (), isConfigured = False,
      showSettings = False, requests = [], toasts = [], formErrors = [], invalidated = 0\<rparr>"

definition validValues :: zabbix_config where
  "validValues =
     \<lparr>url = ''https://zabbix.example.com/zabbix'', username = ''monitor'',
      password = ''secret'', apiVersion = ''2.4'', autoRefresh = True,
      refreshInterval = Num 60\<rparr>"

definition testPassed :: "unit http" where
  "testPassed = Response True 200 ''OK'' (Returns (JsonObject None None ()))"

section \<open>Verified properties of the bootstrap\<close>

subsection \<open>The store and the rebinding loop\<close>








subsection \<open>The two branches of the bootstrap\<close>

lemma selectDurable_iff:
  "selectDurable f d a u b = ((f \<or> d \<or> truthy a) \<and> truthyStr u \<and> b \<noteq> None)"
  by (simp add: selectDurable_def)

lemma selected_iff:
  "selected e =
     ((freshConnectionStatus e \<or> databaseConnected e \<or> truthy (fst (directProbe e))) \<and>
      truthyStr (DATABASE_URL e) \<and> freshDb e \<noteq> None)"
  by (simp add: selected_def selectDurable_iff)

lemma probe_events_no_migration: "Invoke ''runMigrations'' \<notin> set (snd (directProbe e))"
  by (simp add: directProbe_def split: option.splits outcome.splits)

lemma probe_events_no_fallback:
  "ConsoleLog ''PostgreSQL not available - using in-memory storage''
     \<notin> set (snd (directProbe e))"
  by (simp add: directProbe_def split: option.splits outcome.splits)

lemma initDurable_invokes: "Invoke ''runMigrations'' \<in> set (events (initDurable e h))"
  by (simp add: initDurable_def Let_def split: outcome.splits)

lemma initDurable_no_fallback_line:
  "ConsoleLog ''PostgreSQL not available - using in-memory storage''
     \<notin> set (events (initDurable e h))"
  by (simp add: initDurable_def Let_def fallbackEvents_def split: outcome.splits)

lemma banner_quiet:
  "Invoke ''runMigrations'' \<notin> set (selectedBanner e v) \<and>
   ConsoleLog ''PostgreSQL not available - using in-memory storage''
     \<notin> set (selectedBanner e v)"
  by (simp add: selectedBanner_def)

lemma bootstrap_selected:
  "selected e \<Longrightarrow>
   bootstrap e h = (initDurable e h)\<lparr>events :=
       ConsoleLog ''Starting application initialization...'' # snd (directProbe e) @
       selectedBanner e (fst (directProbe e)) @ events (initDurable e h)\<rparr>"
  by (simp add: bootstrap_def selected_def case_prod_unfold Let_def)

lemma bootstrap_not_selected:
  "\<not> selected e \<Longrightarrow>
   bootstrap e h =
     \<lparr>heap = h, usingDatabase = False,
      events = ConsoleLog ''Starting application initialization...'' # snd (directProbe e) @
        [ConsoleLog ''PostgreSQL not available - using in-memory storage'',
         ConsoleLog ''Data will NOT persist between server restarts'',
         ConsoleLog ''Set up PostgreSQL database for persistent storage'']\<rparr>"
  by (simp add: bootstrap_def selected_def case_prod_unfold Let_def)

lemma migration_run_iff_selected:
  "(Invoke ''runMigrations'' \<in> set (events (bootstrap e h))) = selected e"
proof (cases "selected e")
  case True
  then show ?thesis using initDurable_invokes [of e h]
    by (simp add: bootstrap_selected)
next
  case False
  then show ?thesis using probe_events_no_migration [of e]
    by (simp add: bootstrap_not_selected)
qed

lemma memory_announced_iff_not_selected:
  "(ConsoleLog ''PostgreSQL not available - using in-memory storage''
      \<in> set (events (bootstrap e h))) = (\<not> selected e)"
proof (cases "selected e")
  case True
  then show ?thesis
    using initDurable_no_fallback_line [of e h] probe_events_no_fallback [of e]
      banner_quiet [of e "fst (directProbe e)"]
    by (simp add: bootstrap_selected)
next
  case False
  then show ?thesis by (simp add: bootstrap_not_selected)
qed

lemma initDurable_failure:
  assumes "runMigrations e = Throws m \<or> initializeDatabase e = Throws m \<or>
           newDatabaseStorage e = Throws m"
  shows "heap (initDurable e h) = h \<and> usingDatabase (initDurable e h) = False \<and>
         ConsoleWarn ''Falling back to in-memory storage'' \<in> set (events (initDurable e h))"
  using assms
  by (auto simp: initDurable_def Let_def fallbackEvents_def split: outcome.splits)


lemma directProbe_table_probe:
  "fst (directProbe (e\<lparr>freshDb := Some (db\<lparr>vmMonitoringCount := a\<rparr>)\<rparr>)) =
   fst (directProbe (e\<lparr>freshDb := Some (db\<lparr>vmMonitoringCount := b\<rparr>)\<rparr>)) \<and>
   filter (\<lambda>ev. \<not> isTableProbeLog ev)
     (snd (directProbe (e\<lparr>freshDb := Some (db\<lparr>vmMonitoringCount := a\<rparr>)\<rparr>))) =
   filter (\<lambda>ev. \<not> isTableProbeLog ev)
     (snd (directProbe (e\<lparr>freshDb := Some (db\<lparr>vmMonitoringCount := b\<rparr>)\<rparr>)))"
  by (simp add: directProbe_def isTableProbeLog_def split: outcome.splits)

lemma initDurable_ignores_db:
  "initDurable (e\<lparr>freshDb := d\<rparr>) h = initDurable (e\<lparr>freshDb := d'\<rparr>) h"
  by (simp add: initDurable_def Let_def split: outcome.splits)


lemma failingMigrationEnv_selected: "selected failingMigrationEnv"
  by (simp add: selected_iff failingMigrationEnv_def exampleEnv_def directProbe_def)

text \<open>
  C1. The condition that decides between the durable and the in-memory branch is true
  exactly when one of the three connection signals is truthy, \<^verbatim>\<open>DATABASE_URL\<close> is
  set to a non-empty value and a database handle exists. This holds for the condition as
  a function of arbitrary signals (all eight combinations, under either setting of
  target and handle), and for a whole run: the migration runner is started exactly in
  that case, and the in-memory announcement is printed exactly in the other.
\<close>

theorem backend_selection_truth_table:
  "selectDurable fresh declared actual target handle =
     ((fresh \<or> declared \<or> truthy actual) \<and> truthyStr target \<and> handle \<noteq> None) \<and>
   (Invoke ''runMigrations'' \<in> set (events (bootstrap e h))) =
     ((freshConnectionStatus e \<or> databaseConnected e \<or> truthy (fst (directProbe e))) \<and>
      truthyStr (DATABASE_URL e) \<and> freshDb e \<noteq> None) \<and>
   (ConsoleLog ''PostgreSQL not available - using in-memory storage''
      \<in> set (events (bootstrap e h))) =
     (\<not> ((freshConnectionStatus e \<or> databaseConnected e \<or> truthy (fst (directProbe e))) \<and>
      truthyStr (DATABASE_URL e) \<and> freshDb e \<noteq> None))"
  using selectDurable_iff [of fresh declared actual target handle] selected_iff [of e]
    migration_run_iff_selected [of e h] memory_announced_iff_not_selected [of e h]
  by simp

text \<open>
  C2. When the migration runner throws, or \<^verbatim>\<open>initializeDatabase\<close> or the
  \<^verbatim>\<open>DatabaseStorage\<close> constructor throws, the run ends with \<^verbatim>\<open>usingDatabase\<close>
  false and with the store exactly as it was: no property of the shared handle has been
  assigned, so every operation invoked on it runs what it ran before. If the durable
  branch had been entered, the fallback warning was printed.
\<close>

theorem migration_failure_keeps_memory_bindings:
  assumes "runMigrations e = Throws m \<or> initializeDatabase e = Throws m \<or>
           newDatabaseStorage e = Throws m"
  shows "usingDatabase (bootstrap e h) = False \<and> heap (bootstrap e h) = h \<and>
         invoke (heap (bootstrap e h)) (storage e) name = invoke h (storage e) name \<and>
         (Invoke ''runMigrations'' \<in> set (events (bootstrap e h)) \<longrightarrow>
            ConsoleWarn ''Falling back to in-memory storage'' \<in> set (events (bootstrap e h)))"
proof (cases "selected e")
  case True
  then show ?thesis using initDurable_failure [OF assms, of h]
    by (simp add: bootstrap_selected)
next
  case False
  then show ?thesis using probe_events_no_migration [of e]
    by (simp add: bootstrap_not_selected)
qed

theorem migration_failure_keeps_memory_bindings_witness:
  "runMigrations failingMigrationEnv = Throws ''connection refused'' \<and>
   Invoke ''runMigrations'' \<in> set (events (bootstrap failingMigrationEnv [memStorageObject])) \<and>
   ConsoleWarn ''Falling back to in-memory storage''
     \<in> set (events (bootstrap failingMigrationEnv [memStorageObject])) \<and>
   usingDatabase (bootstrap failingMigrationEnv [memStorageObject]) = False \<and>
   heap (bootstrap failingMigrationEnv [memStorageObject]) = [memStorageObject] \<and>
   invoke (heap (bootstrap failingMigrationEnv [memStorageObject])) 0 ''createUser'' =
     Some (''MemStorage.createUser'', 0)"
proof -
  have thrown: "runMigrations failingMigrationEnv = Throws ''connection refused''"
    by (simp add: failingMigrationEnv_def exampleEnv_def)
  have ran: "Invoke ''runMigrations''
      \<in> set (events (bootstrap failingMigrationEnv [memStorageObject]))"
    using failingMigrationEnv_selected by (simp add: migration_run_iff_selected)
  have handle: "storage failingMigrationEnv = 0"
    by (simp add: failingMigrationEnv_def exampleEnv_def)
  have before: "invoke [memStorageObject] 0 ''createUser'' = Some (''MemStorage.createUser'', 0)"
    by (simp add: invoke_def getProp_def lookup_def memStorageObject_def)
  show ?thesis
    using migration_failure_keeps_memory_bindings
      [of failingMigrationEnv "''connection refused''" "[memStorageObject]" "''createUser''"]
      thrown ran handle before
    by simp
qed









text \<open>
  The line that reports a missing or inaccessible table is printed by the probe exactly
  when the table probe is reached and fails, and by no other part of the run; and a run
  in which the table probe failed goes on into the durable branch.
\<close>

lemma probe_logs_table_failure:
  "(ConsoleLog ''VM monitoring table check: TABLE MISSING OR INACCESSIBLE''
      \<in> set (snd (directProbe e))) = tableProbeFailed e"
  by (auto simp: directProbe_def tableProbeFailed_def split: option.splits outcome.splits)

lemma table_failure_line_elsewhere:
  "ConsoleLog ''VM monitoring table check: TABLE MISSING OR INACCESSIBLE''
     \<notin> set (selectedBanner e v)"
  "ConsoleLog ''VM monitoring table check: TABLE MISSING OR INACCESSIBLE''
     \<notin> set (events (initDurable e h))"
  by (simp_all add: selectedBanner_def initDurable_def Let_def fallbackEvents_def
      split: outcome.splits)

lemma table_failure_logged_iff:
  "(ConsoleLog ''VM monitoring table check: TABLE MISSING OR INACCESSIBLE''
      \<in> set (events (bootstrap e h))) = tableProbeFailed e"
proof (cases "selected e")
  case True
  then show ?thesis
    using probe_logs_table_failure [of e]
    by (simp add: bootstrap_selected table_failure_line_elsewhere)
next
  case False
  then show ?thesis
    using probe_logs_table_failure [of e] by (simp add: bootstrap_not_selected)
qed

lemma table_failure_selected: "tableProbeFailed e \<Longrightarrow> selected e"
  by (auto simp: selected_iff tableProbeFailed_def directProbe_def
      split: option.splits outcome.splits)

lemma exampleEnv_table_probe_failed: "tableProbeFailed exampleEnv"
  by (simp add: tableProbeFailed_def exampleEnv_def)

text \<open>
  C9. Two runs that differ only in the outcome of the \<^verbatim>\<open>vm_monitoring\<close> probe agree
  on the verified signal, on whether the durable branch is entered, on the final
  \<^verbatim>\<open>usingDatabase\<close> flag and on the final store; their outputs agree once the line that
  reports the table probe is left out. The failure of the probe is logged: the line
  reporting a missing or inaccessible table is printed exactly when the table probe is
  reached and throws. The failure is caught where it occurs and does not end the run:
  such a run goes on to start the migration runner.
\<close>

theorem table_probe_never_gates_selection:
  "fst (directProbe (e\<lparr>freshDb := Some (db\<lparr>vmMonitoringCount := a\<rparr>)\<rparr>)) =
     fst (directProbe (e\<lparr>freshDb := Some (db\<lparr>vmMonitoringCount := b\<rparr>)\<rparr>)) \<and>
   (Invoke ''runMigrations''
      \<in> set (events (bootstrap (e\<lparr>freshDb := Some (db\<lparr>vmMonitoringCount := a\<rparr>)\<rparr>) h))) =
     (Invoke ''runMigrations''
      \<in> set (events (bootstrap (e\<lparr>freshDb := Some (db\<lparr>vmMonitoringCount := b\<rparr>)\<rparr>) h))) \<and>
   usingDatabase (bootstrap (e\<lparr>freshDb := Some (db\<lparr>vmMonitoringCount := a\<rparr>)\<rparr>) h) =
     usingDatabase (bootstrap (e\<lparr>freshDb := Some (db\<lparr>vmMonitoringCount := b\<rparr>)\<rparr>) h) \<and>
   heap (bootstrap (e\<lparr>freshDb := Some (db\<lparr>vmMonitoringCount := a\<rparr>)\<rparr>) h) =
     heap (bootstrap (e\<lparr>freshDb := Some (db\<lparr>vmMonitoringCount := b\<rparr>)\<rparr>) h) \<and>
   filter (\<lambda>ev. \<not> isTableProbeLog ev)
       (events (bootstrap (e\<lparr>freshDb := Some (db\<lparr>vmMonitoringCount := a\<rparr>)\<rparr>) h)) =
     filter (\<lambda>ev. \<not> isTableProbeLog ev)
       (events (bootstrap (e\<lparr>freshDb := Some (db\<lparr>vmMonitoringCount := b\<rparr>)\<rparr>) h)) \<and>
   (ConsoleLog ''VM monitoring table check: TABLE MISSING OR INACCESSIBLE''
      \<in> set (events (bootstrap e h))) = tableProbeFailed e \<and>
   (tableProbeFailed e \<longrightarrow> Invoke ''runMigrations'' \<in> set (events (bootstrap e h)))"
proof -
  let ?ea = "e\<lparr>freshDb := Some (db\<lparr>vmMonitoringCount := a\<rparr>)\<rparr>"
  let ?eb = "e\<lparr>freshDb := Some (db\<lparr>vmMonitoringCount := b\<rparr>)\<rparr>"
  have p: "fst (directProbe ?ea) = fst (directProbe ?eb)"
    and q: "filter (\<lambda>ev. \<not> isTableProbeLog ev) (snd (directProbe ?ea)) =
            filter (\<lambda>ev. \<not> isTableProbeLog ev) (snd (directProbe ?eb))"
    using directProbe_table_probe [where e = e and db = db and a = a and b = b]
    by simp_all
  have i: "initDurable ?ea h = initDurable ?eb h" by (rule initDurable_ignores_db)
  have b: "selectedBanner ?ea (fst (directProbe ?ea)) =
           selectedBanner ?eb (fst (directProbe ?eb))"
    using p by (simp add: selectedBanner_def)
  have s: "selected ?ea = selected ?eb"
    using p by (simp add: selected_def selectDurable_def)
  have same: "heap (bootstrap ?ea h) = heap (bootstrap ?eb h) \<and>
        usingDatabase (bootstrap ?ea h) = usingDatabase (bootstrap ?eb h) \<and>
        filter (\<lambda>ev. \<not> isTableProbeLog ev) (events (bootstrap ?ea h)) =
        filter (\<lambda>ev. \<not> isTableProbeLog ev) (events (bootstrap ?eb h))"
  proof (cases "selected ?ea")
    case True
    then have "selected ?eb" using s by simp
    then show ?thesis using True q b i
      by (simp add: bootstrap_selected)
  next
    case False
    then have "\<not> selected ?eb" using s by simp
    then show ?thesis using False q
      by (simp add: bootstrap_not_selected)
  qed
  have branch: "(Invoke ''runMigrations'' \<in> set (events (bootstrap ?ea h))) =
     (Invoke ''runMigrations'' \<in> set (events (bootstrap ?eb h)))"
    using s by (simp add: migration_run_iff_selected)
  have logged: "(ConsoleLog ''VM monitoring table check: TABLE MISSING OR INACCESSIBLE''
      \<in> set (events (bootstrap e h))) = tableProbeFailed e"
    by (rule table_failure_logged_iff)
  have goes_on: "tableProbeFailed e \<longrightarrow>
      Invoke ''runMigrations'' \<in> set (events (bootstrap e h))"
    using table_failure_selected [of e] by (auto simp: migration_run_iff_selected)
  show ?thesis using p same branch logged goes_on by simp
qed

theorem table_probe_never_gates_selection_witness:
  "tableProbeFailed exampleEnv \<and>
   ConsoleLog ''VM monitoring table check: TABLE MISSING OR INACCESSIBLE''
     \<in> set (events (bootstrap exampleEnv [memStorageObject])) \<and>
   Invoke ''runMigrations'' \<in> set (events (bootstrap exampleEnv [memStorageObject]))"
proof -
  note t = table_probe_never_gates_selection
    [where e = exampleEnv and h = "[memStorageObject]"
       and db = "\<lparr>connectionTest = Returns (Rows 1), vmMonitoringCount = Returns ()\<rparr>"
       and a = "Returns ()" and b = "Throws ''relation vm_monitoring does not exist''"]
  have f: "tableProbeFailed exampleEnv" by (rule exampleEnv_table_probe_failed)
  have l: "ConsoleLog ''VM monitoring table check: TABLE MISSING OR INACCESSIBLE''
     \<in> set (events (bootstrap exampleEnv [memStorageObject]))"
    using t f by blast
  have m: "Invoke ''runMigrations'' \<in> set (events (bootstrap exampleEnv [memStorageObject]))"
    using t f by blast
  show ?thesis using f l m by simp
qed

section \<open>Verified properties of the administrator check and of logging\<close>

subsection \<open>The administrator check\<close>











subsection \<open>Logging failures\<close>

text \<open>
  In the request path the call to the external logger is guarded: when it throws, the
  line written to the application log is the same and the only difference is one message
  on the error console in place of the external entry.
\<close>

lemma onFinish_logging_failure_contained:
  "logApiRequest lg r = Returns () \<Longrightarrow> logApiRequest lg' r = Throws m \<Longrightarrow>
   filter (\<lambda>ev. \<forall>c d. ev \<noteq> ExternalLog c d) (onFinish lg r) =
   filter (\<lambda>ev. ev \<noteq> ConsoleError (''Failed to log API request externally: '' @ m)) (onFinish lg' r)"
  by (simp add: onFinish_def)

text \<open>
  In \<^verbatim>\<open>startServer\<close> the call is not guarded: whenever everything before it
  succeeded and the logger throws, the function rejects with the logger's error and the
  listener is never started.
\<close>

lemma startServer_logger_throws:
  assumes "registerRoutes e = Returns ()"
    "(if NODE_ENV e \<noteq> Some ''production'' then setupVite e else serveStatic e) = Returns ()"
    "logSystem lg ''server_startup'' = Throws m"
  shows "fst (startServer e lg) = Throws m \<and> Listen PORT ''0.0.0.0'' \<notin> set (snd (startServer e lg))"
  using assms by (simp add: startServer_def Let_def)

text \<open>
  C5 (the code departs from the claim). With a working logger the development server
  starts listening on port 5000. With the same environment and a logger whose
  \<^verbatim>\<open>logSystem\<close> throws, \<^verbatim>\<open>startServer\<close> rejects with the logger's error, no
  listener is started, and the heartbeat timer and signal handlers are never installed.
\<close>

theorem startup_logging_failure_blocks_listen:
  "fst (startServer developmentServer workingLogger) = Returns () \<and>
   Listen 5000 ''0.0.0.0'' \<in> set (snd (startServer developmentServer workingLogger)) \<and>
   fst (startServer developmentServer
          (workingLogger\<lparr>logSystem := \<lambda>ev. Throws ''EACCES: logs/''\<rparr>)) = Throws ''EACCES: logs/'' \<and>
   Listen 5000 ''0.0.0.0'' \<notin> set (snd (startServer developmentServer
          (workingLogger\<lparr>logSystem := \<lambda>ev. Throws ''EACCES: logs/''\<rparr>))) \<and>
   heartbeat (launchServer developmentServer
          (workingLogger\<lparr>logSystem := \<lambda>ev. Throws ''EACCES: logs/''\<rparr>) ''10.0.0.5'') = False"
  by (simp add: startServer_def launchServer_def startFailed_def developmentServer_def
      workingLogger_def Let_def PORT_def)

section \<open>Verified properties of the monitoring page\<close>

subsection \<open>Validation and the requests the form issues\<close>

text \<open>The substring test is the one the library of lists calls \<open>sublist\<close>.\<close>

lemma includes_str_iff: "includes_str s t = sublist t s"
  by (induction s) (auto simp: sublist_Cons_right)

text \<open>
  The schema accepts exactly the inputs with a well-formed URL, a non-empty user name and
  password and a finite interval between 30 and 600 inclusive.
\<close>

lemma schema_accepts_iff:
  "(zabbixConfigSchema isUrl c = []) =
     (isUrl (url c) \<and> zabbix_config.username c \<noteq> [] \<and> zabbix_config.password c \<noteq> [] \<and>
      (\<exists>x. refreshInterval c = Num x \<and> 30 \<le> x \<and> x \<le> 600))"
  by (cases "refreshInterval c") (auto simp: zabbixConfigSchema_def Suc_le_eq)

text \<open>
  Submitting the form with an input the schema rejects only records the issues: no request
  is sent and local storage is not touched.
\<close>

lemma submit_guarded:
  "zabbixConfigSchema isUrl v \<noteq> [] \<Longrightarrow>
   submitForm isUrl response v p = p\<lparr>formErrors := zabbixConfigSchema isUrl v\<rparr>"
  by (cases "zabbixConfigSchema isUrl v") (simp_all add: submitForm_def)

lemma submit_valid:
  "zabbixConfigSchema isUrl v = [] \<Longrightarrow>
   submitForm isUrl response v p = saveConfigMutation response v (p\<lparr>formErrors := []\<rparr>)"
  by (simp add: submitForm_def)

lemma testConnection_requests:
  "requests (testConnectionMutation response v p) = requests p @ [PostTestConnection v]"
  by (simp add: testConnectionMutation_def Let_def split: http.splits outcome.splits json.splits)

text \<open>
  The metrics query posts only a configuration it found in local storage, and only a
  complete one.
\<close>

lemma queryFn_requests:
  "snd (queryFn store response) =
     (case store configKey of
        None \<Rightarrow> []
      | Some c \<Rightarrow> if url c = [] \<or> zabbix_config.username c = [] \<or> zabbix_config.password c = []
                  then [] else [PostMetrics c])"
  by (simp add: queryFn_def Let_def split: option.splits)

text \<open>
  C6 (the code departs from the claim). The form filled with an empty URL, user name and
  password and an interval of five seconds is rejected by the schema whatever the URL
  check says, and submitting it sends nothing; yet pressing \<^verbatim>\<open>Test Connection\<close>
  with the same values posts them to the connectivity-test endpoint, because that button
  passes \<^verbatim>\<open>form.getValues()\<close> to the mutation without running the schema.
\<close>

theorem test_connection_skips_validation:
  "(\<forall>isUrl. zabbixConfigSchema isUrl invalidValues \<noteq> []) \<and>
   (\<forall>response. requests (clickTestConnection response invalidValues freshPage) =
      [PostTestConnection invalidValues]) \<and>
   (\<forall>isUrl response. requests (submitForm isUrl (response :: unit http) invalidValues freshPage) = [])"
proof -
  have bad: "\<And>isUrl. zabbixConfigSchema isUrl invalidValues \<noteq> []"
    by (simp add: zabbixConfigSchema_def invalidValues_def)
  have click: "\<And>response. requests (clickTestConnection response invalidValues freshPage) =
      [PostTestConnection invalidValues]"
    by (simp add: clickTestConnection_def testConnection_requests freshPage_def)
  have submit: "\<And>isUrl response. requests (submitForm isUrl (response :: unit http) invalidValues freshPage) = []"
    using bad by (simp add: submit_guarded freshPage_def)
  show ?thesis using bad click submit by blast
qed

subsection \<open>Saving the configuration\<close>

lemma saveFn_store:
  "snd (saveConfigMutationFn response written config store) =
     (if responseOk response \<and> written = Returns () then store(configKey \<mapsto> config)
      else store)"
  by (simp add: saveConfigMutationFn_def split: http.splits outcome.splits json.splits)

lemma saveFn_result_ok:
  "(fst (saveConfigMutationFn response written config store) = Returns config) =
     (responseOk response \<and> written = Returns ())"
  by (simp add: saveConfigMutationFn_def split: http.splits outcome.splits json.splits)

lemma saveFn_result_fail:
  "(\<exists>m. fst (saveConfigMutationFn response written config store) = Throws m) =
     (\<not> (responseOk response \<and> written = Returns ()))"
  by (simp add: saveConfigMutationFn_def split: http.splits outcome.splits json.splits)

lemma save_page:
  "localStorage (saveConfigMutation response config p) =
     (if responseOk response \<and> setItem p = Returns ()
      then (localStorage p)(configKey \<mapsto> config) else localStorage p) \<and>
   requests (saveConfigMutation response config p) = requests p @ [PostTestConnection config] \<and>
   isConfigured (saveConfigMutation response config p) =
     (responseOk response \<and> setItem p = Returns () \<or> isConfigured p) \<and>
   (\<exists>m. toasts (saveConfigMutation response config p) =
          toasts p @ [(''Configuration Failed'', m)]) =
     (\<not> (responseOk response \<and> setItem p = Returns ()))"
  by (simp add: saveConfigMutation_def saveConfigMutationFn_def Let_def
      split: http.splits outcome.splits json.splits)

text \<open>
  C8 (as stated, refuted). The connectivity test reports success, but the browser refuses
  the write: \<^verbatim>\<open>setItem\<close> throws, the mutation throws that error, nothing is stored and
  the failure toast is shown. So a successful test does not always lead to a stored
  configuration.
\<close>

theorem save_after_successful_test_counterexample:
  "responseOk testPassed \<and>
   fst (saveConfigMutationFn testPassed (Throws ''QuotaExceededError'') validValues Map.empty) =
     Throws ''QuotaExceededError'' \<and>
   snd (saveConfigMutationFn testPassed (Throws ''QuotaExceededError'') validValues Map.empty)
     configKey = None \<and>
   localStorage
     (saveConfigMutation testPassed validValues
        (freshPage\<lparr>setItem := Throws ''QuotaExceededError''\<rparr>)) configKey = None \<and>
   toasts
     (saveConfigMutation testPassed validValues
        (freshPage\<lparr>setItem := Throws ''QuotaExceededError''\<rparr>)) =
     [(''Configuration Failed'', ''QuotaExceededError'')]"
  by (simp add: saveConfigMutation_def saveConfigMutationFn_def testPassed_def freshPage_def
      Let_def)

text \<open>
  C8 (amended). A save sends the connectivity test first. The configuration is written to
  local storage, and the mutation returns it, exactly when the test response is
  \<^verbatim>\<open>ok\<close> and the write itself does not throw: so it is stored only after a successful
  test, and always after one when the browser accepts the write. In every other case,
  test failed or write refused, local storage is left as it was, the mutation throws, and
  the failure toast is shown.
\<close>

theorem save_persists_only_after_successful_test:
  "snd (saveConfigMutationFn response written config store) =
     (if responseOk response \<and> written = Returns () then store(configKey \<mapsto> config)
      else store) \<and>
   (fst (saveConfigMutationFn response written config store) = Returns config) =
     (responseOk response \<and> written = Returns ()) \<and>
   (\<exists>m. fst (saveConfigMutationFn response written config store) = Throws m) =
     (\<not> (responseOk response \<and> written = Returns ())) \<and>
   localStorage (saveConfigMutation response config p) =
     (if responseOk response \<and> setItem p = Returns ()
      then (localStorage p)(configKey \<mapsto> config) else localStorage p) \<and>
   requests (saveConfigMutation response config p) = requests p @ [PostTestConnection config] \<and>
   (\<exists>m. toasts (saveConfigMutation response config p) =
          toasts p @ [(''Configuration Failed'', m)]) =
     (\<not> (responseOk response \<and> setItem p = Returns ()))"
  using saveFn_store [of response written config store]
    saveFn_result_ok [of response written config store]
    saveFn_result_fail [of response written config store] save_page [of response config p]
  by simp

subsection \<open>Retrying the metrics query\<close>

lemma retryDelay_bound: "retryDelay n \<le> 30000"
  by (simp add: retryDelay_def)

lemma retry_auth: "includes_str m ''Authentication'' \<or> includes_str m ''401'' \<Longrightarrow> retry n m = False"
  by (simp add: retry_def)

lemma retry_other:
  "\<not> (includes_str m ''Authentication'' \<or> includes_str m ''401'') \<Longrightarrow> retry n m = (n < 3)"
  by (simp add: retry_def)

text \<open>
  C7. An error whose message contains \<^verbatim>\<open>Authentication\<close> or \<^verbatim>\<open>401\<close> is never
  retried: the first such failure surfaces with no delay waited. When the first four runs
  fail with other errors, the query is retried exactly three times, after 1000, 2000 and
  4000 milliseconds, and the fourth error surfaces. The delay after \<open>k\<close> failures is
  \<open>1000 * 2 ^ k\<close> milliseconds, capped at 30000.
\<close>

theorem metrics_retry_policy:
  "(includes_str m ''Authentication'' \<or> includes_str m ''401'' \<longrightarrow>
      (\<forall>n. \<not> retry n m) \<and>
      (attempt 0 = Throws m \<longrightarrow> fetchWithRetry attempt 0 [] = (Throws m, []))) \<and>
   ((\<forall>n \<le> 3. attempt' n = Throws (msg n) \<and>
        \<not> (includes_str (msg n) ''Authentication'' \<or> includes_str (msg n) ''401'')) \<longrightarrow>
      fetchWithRetry attempt' 0 [] = (Throws (msg 3), [1000, 2000, 4000])) \<and>
   retryDelay k = min (1000 * 2 ^ k) 30000 \<and> retryDelay k \<le> 30000"
proof -
  have auth: "includes_str m ''Authentication'' \<or> includes_str m ''401'' \<longrightarrow>
      (\<forall>n. \<not> retry n m) \<and>
      (attempt 0 = Throws m \<longrightarrow> fetchWithRetry attempt 0 [] = (Throws m, []))"
    by (simp add: retry_auth)
  have other: "(\<forall>n \<le> 3. attempt' n = Throws (msg n) \<and>
        \<not> (includes_str (msg n) ''Authentication'' \<or> includes_str (msg n) ''401'')) \<longrightarrow>
      fetchWithRetry attempt' 0 [] = (Throws (msg 3), [1000, 2000, 4000])"
  proof
    assume a: "\<forall>n \<le> 3. attempt' n = Throws (msg n) \<and>
        \<not> (includes_str (msg n) ''Authentication'' \<or> includes_str (msg n) ''401'')"
    have t: "attempt' 0 = Throws (msg 0)" "attempt' 1 = Throws (msg 1)"
      "attempt' 2 = Throws (msg 2)" "attempt' 3 = Throws (msg 3)"
      using a by simp_all
    have r: "retry 0 (msg 0)" "retry 1 (msg 1)" "retry 2 (msg 2)" "\<not> retry 3 (msg 3)"
      using a by (simp_all add: retry_other)
    have d: "retryDelay 0 = 1000" "retryDelay 1 = 2000" "retryDelay 2 = 4000"
      by (simp_all add: retryDelay_def)
    have s3: "fetchWithRetry attempt' 3 [1000, 2000, 4000] = (Throws (msg 3), [1000, 2000, 4000])"
      using t(4) r(4) by (subst fetchWithRetry.simps) simp
    have s2: "fetchWithRetry attempt' 2 [1000, 2000] = (Throws (msg 3), [1000, 2000, 4000])"
      using t(3) r(3) d(3) s3 by (subst fetchWithRetry.simps) (simp add: numeral_3_eq_3)
    have s1: "fetchWithRetry attempt' 1 [1000] = (Throws (msg 3), [1000, 2000, 4000])"
      using t(2) r(2) d(2) s2 by (subst fetchWithRetry.simps) (simp add: numeral_2_eq_2)
    show "fetchWithRetry attempt' 0 [] = (Throws (msg 3), [1000, 2000, 4000])"
      using t(1) r(1) d(1) s1 by (subst fetchWithRetry.simps) simp
  qed
  show ?thesis using auth other retryDelay_bound [of k] by (simp add: retryDelay_def)
qed

theorem metrics_retry_policy_witness:
  "includes_str ''Authentication failed'' ''Authentication'' \<and>
   fetchWithRetry (\<lambda>n. Throws ''Authentication failed'' :: unit outcome) 0 [] =
     (Throws ''Authentication failed'', []) \<and>
   \<not> includes_str ''Network timeout'' ''Authentication'' \<and>
   \<not> includes_str ''Network timeout'' ''401'' \<and>
   fetchWithRetry (\<lambda>n. Throws ''Network timeout'' :: unit outcome) 0 [] =
     (Throws ''Network timeout'', [1000, 2000, 4000])"
proof -
  have a: "includes_str ''Authentication failed'' ''Authentication''"
    by simp
  have b: "\<not> includes_str ''Network timeout'' ''Authentication''"
    "\<not> includes_str ''Network timeout'' ''401''"
    by simp_all
  show ?thesis
    using metrics_retry_policy
      [of "''Authentication failed''" "\<lambda>n. Throws ''Authentication failed'' :: unit outcome"
        "\<lambda>n. Throws ''Network timeout'' :: unit outcome" "\<lambda>n. ''Network timeout''" 0]
      a b
    by simp
qed

subsection \<open>Availability\<close>

text \<open>
  C10. Both places that show the availability percentage yield 0 when the total number of
  hosts is 0 (and when there are no metrics yet), and otherwise the available hosts
  divided by the total, times 100. The unguarded quotient of zero by zero would be
  \<^verbatim>\<open>NaN\<close>.
\<close>

theorem availability_guarded:
  "availabilityProgress (Some m) =
     (if totalHosts m = 0 then Num 0 else Num (availableHosts m / totalHosts m * 100)) \<and>
   availabilitySummary (Some m) =
     (if totalHosts m = 0 then Num 0 else Num (availableHosts m / totalHosts m * 100)) \<and>
   availabilityProgress None = Num 0 \<and> availabilitySummary None = Num 0 \<and>
   jsDivide 0 0 = NaN"
proof -
  have bar: "availabilityProgress (Some m) =
     (if totalHosts m = 0 then Num 0 else Num (availableHosts m / totalHosts m * 100))"
    by (simp add: availabilityProgress_def jsDivide_def)
  have summary: "availabilitySummary (Some m) =
     (if totalHosts m = 0 then Num 0 else Num (availableHosts m / totalHosts m * 100))"
  proof (cases "totalHosts m = 0")
    case True
    then show ?thesis by (simp add: availabilitySummary_def orNumber_def)
  next
    case False
    then have "orNumber (totalHosts m) 1 = totalHosts m" "orNumber (totalHosts m) 0 \<noteq> 0"
      "orNumber (availableHosts m) 0 = availableHosts m"
      by (simp_all add: orNumber_def)
    then show ?thesis using False
      by (simp add: availabilitySummary_def jsDivide_def Let_def)
  qed
  have none: "availabilityProgress None = Num 0" "availabilitySummary None = Num 0"
    by (simp_all add: availabilityProgress_def availabilitySummary_def orNumber_def)
  have unguarded: "jsDivide 0 0 = NaN"
    by (simp add: jsDivide_def)
  show ?thesis using bar summary none unguarded by simp
qed

end
